theory Spec2Isabelle
  imports Complex_Main "HOL-Library.Finite_Map" "HOL-Library.Word"
begin

section \<open>JavaScript values\<close>

text \<open>
  The values that flow through \<^verbatim>\<open>App.js\<close>: what \<^verbatim>\<open>res.json()\<close> returns, what
  \<^verbatim>\<open>setItems\<close> stores and what an edited cell holds. An object is the finite map of its
  own enumerable properties. \<open>JUndefined\<close> is the value of a missing property; it is not
  a JSON value, so \<^verbatim>\<open>res.json()\<close> never returns it.
\<close>

datatype jsval =
    JUndefined
  | JNull
  | JBool bool
  | JNum rat
  | JStr string
  | JArr "jsval list"
  | JObj "(string, jsval) fmap"

text \<open>What a \<^verbatim>\<open>try\<close> block can catch. The handlers discard the caught value.\<close>

datatype exn = TypeError | SyntaxError | JsError string

text \<open>\<^verbatim>\<open>if (v)\<close>: JavaScript's ToBoolean. An array is truthy even when it is empty.\<close>

fun truthy :: "jsval \<Rightarrow> bool" where
  "truthy JUndefined = False"
| "truthy JNull = False"
| "truthy (JBool b) = b"
| "truthy (JNum n) = (n \<noteq> 0)"
| "truthy (JStr s) = (s \<noteq> [])"
| "truthy (JArr xs) = True"
| "truthy (JObj m) = True"

text \<open>
  \<^verbatim>\<open>data.items\<close>: reading the property of \<^verbatim>\<open>null\<close> or \<^verbatim>\<open>undefined\<close> throws a
  TypeError; an object gives the property or \<^verbatim>\<open>undefined\<close>; an array, a string, a number
  and a boolean have no property of that name.
\<close>

fun get_items :: "jsval \<Rightarrow> exn + jsval" where
  "get_items JUndefined = Inl TypeError"
| "get_items JNull = Inl TypeError"
| "get_items (JObj m) = Inr (case fmlookup m ''items'' of None \<Rightarrow> JUndefined | Some v \<Rightarrow> v)"
| "get_items (JBool b) = Inr JUndefined"
| "get_items (JNum n) = Inr JUndefined"
| "get_items (JStr s) = Inr JUndefined"
| "get_items (JArr xs) = Inr JUndefined"

text \<open>The decimal name of an array index, as a property key.\<close>

fun index_key :: "nat \<Rightarrow> string" where
  "index_key n =
     (if n < 10 then [''0123456789'' ! n]
      else index_key (n div 10) @ [''0123456789'' ! (n mod 10)])"

definition indexed :: "jsval list \<Rightarrow> (string, jsval) fmap" where
  "indexed xs = fmap_of_list (zip (map index_key [0..<length xs]) xs)"

text \<open>
  \<^verbatim>\<open>{ ...item }\<close>: the own enumerable properties that object spread copies. An array and
  a string spread their indexed elements; \<^verbatim>\<open>null\<close>, \<^verbatim>\<open>undefined\<close>, numbers and
  booleans spread nothing.
\<close>

fun own_props :: "jsval \<Rightarrow> (string, jsval) fmap" where
  "own_props (JObj m) = m"
| "own_props (JArr xs) = indexed xs"
| "own_props (JStr s) = indexed (map (\<lambda>c. JStr [c]) s)"
| "own_props JUndefined = fmempty"
| "own_props JNull = fmempty"
| "own_props (JBool b) = fmempty"
| "own_props (JNum n) = fmempty"

section \<open>Session state\<close>

text \<open>The five \<^verbatim>\<open>useState\<close> cells of \<^verbatim>\<open>App\<close>.\<close>

record session =
  prompt :: string
  docType :: string
  items :: jsval
  loading :: bool
  error :: string

definition DOC_TYPES :: "string list" where
  "DOC_TYPES = [''Facture'', ''Devis'', ''Bon de commande'', ''Bon de livraison'']"

definition initial_session :: session where
  "initial_session =
     \<lparr>prompt = '''', docType = DOC_TYPES ! 0, items = JArr [], loading = False, error = ''''\<rparr>"

text \<open>
  What a handler does, in program order: calls of the state setters, a \<^verbatim>\<open>fetch\<close> (URL and
  the value given to \<^verbatim>\<open>JSON.stringify\<close>), and the click on the download anchor (the
  \<^verbatim>\<open>download\<close> attribute and the blob behind the object URL).
\<close>

type_synonym bytes = "8 word list"

datatype action =
    SetPrompt string
  | SetDocType string
  | SetItems jsval
  | SetLoading bool
  | SetError string
  | Fetch string jsval
  | Download string bytes

fun apply_action :: "action \<Rightarrow> session \<Rightarrow> session" where
  "apply_action (SetPrompt v) s = s\<lparr>prompt := v\<rparr>"
| "apply_action (SetDocType v) s = s\<lparr>docType := v\<rparr>"
| "apply_action (SetItems v) s = s\<lparr>items := v\<rparr>"
| "apply_action (SetLoading v) s = s\<lparr>loading := v\<rparr>"
| "apply_action (SetError v) s = s\<lparr>error := v\<rparr>"
| "apply_action (Fetch url body) s = s"
| "apply_action (Download name b) s = s"

definition run :: "action list \<Rightarrow> session \<Rightarrow> session" where
  "run acts s = fold apply_action acts s"

fun is_fetch :: "action \<Rightarrow> bool" where
  "is_fetch (Fetch url body) = True"
| "is_fetch (SetPrompt v) = False"
| "is_fetch (SetDocType v) = False"
| "is_fetch (SetItems v) = False"
| "is_fetch (SetLoading v) = False"
| "is_fetch (SetError v) = False"
| "is_fetch (Download name b) = False"

section \<open>What the two services answer\<close>

text \<open>
  A \<^verbatim>\<open>fetch\<close> either rejects (transport failure) or resolves with a response, whatever
  its HTTP status. \<^verbatim>\<open>res.ok\<close> holds for the statuses 200 to 299. \<open>body\<close> is what the
  one reader the handler calls settles with: \<^verbatim>\<open>res.json()\<close> in \<^verbatim>\<open>handleParse\<close>, which
  rejects on a body that is not JSON, and \<^verbatim>\<open>res.blob()\<close> in \<^verbatim>\<open>handleGeneratePDF\<close>,
  which rejects when reading the body fails.
\<close>

record 'b response =
  status :: nat
  body :: "exn + 'b"

definition ok :: "'b response \<Rightarrow> bool" where
  "ok res = (200 \<le> status res \<and> status res \<le> 299)"

type_synonym 'b fetched = "exn + 'b response"

section \<open>handleParse\<close>

text \<open>
  The handler runs in two pieces. Up to the \<^verbatim>\<open>await fetch(...)\<close> it runs at the click:
  three setter calls and the request, whose body holds the \<^verbatim>\<open>prompt\<close> of the render that
  created the handler. The rest runs when the request settles.
\<close>

definition parse_url :: string where
  "parse_url = ''http://localhost:5000/api/parse''"

definition handleParse_begin :: "session \<Rightarrow> action list" where
  "handleParse_begin s =
     [SetLoading True, SetError '''', SetItems (JArr []),
      Fetch parse_url (JObj (fmupd ''prompt'' (JStr (prompt s)) fmempty))]"

text \<open>
  The rest of the \<^verbatim>\<open>try\<close> block: \<open>Inl\<close> is a throw, \<open>Inr\<close> the setter calls made. No
  setter is called before a statement that can throw, and \<^verbatim>\<open>res.ok\<close> is not read.
\<close>

definition handleParse_try :: "jsval fetched \<Rightarrow> exn + action list" where
  "handleParse_try f =
     (case f of
        Inl e \<Rightarrow> Inl e
      | Inr res \<Rightarrow>
          (case body res of
             Inl e \<Rightarrow> Inl e
           | Inr data \<Rightarrow>
               (case get_items data of
                  Inl e \<Rightarrow> Inl e
                | Inr v \<Rightarrow>
                    Inr (if truthy v then [SetItems v] else [SetError ''No items found.'']))))"

definition handleParse_resume :: "jsval fetched \<Rightarrow> action list" where
  "handleParse_resume f =
     (case handleParse_try f of
        Inl e \<Rightarrow> [SetError ''Error parsing prompt.'']
      | Inr acts \<Rightarrow> acts)
     @ [SetLoading False]"

definition handleParse :: "session \<Rightarrow> jsval fetched \<Rightarrow> action list" where
  "handleParse s f = handleParse_begin s @ handleParse_resume f"

section \<open>handleItemChange\<close>

text \<open>
  The updater given to \<^verbatim>\<open>setItems\<close>. \<^verbatim>\<open>i === idx\<close> holds for no position when
  \<^verbatim>\<open>idx\<close> is negative or beyond the end. A value without a \<^verbatim>\<open>map\<close> method (anything
  but an array) makes the call throw a TypeError.
\<close>

definition handleItemChange_map :: "int \<Rightarrow> string \<Rightarrow> jsval \<Rightarrow> jsval list \<Rightarrow> jsval list" where
  "handleItemChange_map idx field v xs =
     map (\<lambda>(i, item). if int i = idx then JObj (fmupd field v (own_props item)) else item)
       (enumerate 0 xs)"

fun handleItemChange_updater :: "int \<Rightarrow> string \<Rightarrow> jsval \<Rightarrow> jsval \<Rightarrow> exn + jsval" where
  "handleItemChange_updater idx field v (JArr xs) = Inr (JArr (handleItemChange_map idx field v xs))"
| "handleItemChange_updater idx field v JUndefined = Inl TypeError"
| "handleItemChange_updater idx field v JNull = Inl TypeError"
| "handleItemChange_updater idx field v (JBool b) = Inl TypeError"
| "handleItemChange_updater idx field v (JNum n) = Inl TypeError"
| "handleItemChange_updater idx field v (JStr s) = Inl TypeError"
| "handleItemChange_updater idx field v (JObj m) = Inl TypeError"

definition handleItemChange :: "int \<Rightarrow> string \<Rightarrow> jsval \<Rightarrow> session \<Rightarrow> exn + session" where
  "handleItemChange idx field v s =
     (case handleItemChange_updater idx field v (items s) of
        Inl e \<Rightarrow> Inl e
      | Inr new_items \<Rightarrow> Inr (s\<lparr>items := new_items\<rparr>))"

section \<open>handleGeneratePDF\<close>

text \<open>
  Again two pieces. The request body and the file name use the \<^verbatim>\<open>items\<close> and
  \<^verbatim>\<open>docType\<close> of the render that created the handler, so the second piece takes that
  \<^verbatim>\<open>docType\<close> as an argument.
\<close>

definition pdf_url :: string where
  "pdf_url = ''http://localhost:5000/api/generate-pdf''"

definition handleGeneratePDF_begin :: "session \<Rightarrow> action list" where
  "handleGeneratePDF_begin s =
     [SetLoading True, SetError '''',
      Fetch pdf_url (JObj (fmupd ''docType'' (JStr (docType s)) (fmupd ''items'' (items s) fmempty)))]"

definition handleGeneratePDF_try :: "string \<Rightarrow> bytes fetched \<Rightarrow> exn + action list" where
  "handleGeneratePDF_try dt f =
     (case f of
        Inl e \<Rightarrow> Inl e
      | Inr res \<Rightarrow>
          if \<not> ok res then Inl (JsError ''PDF generation failed'')
          else (case body res of
                  Inl e \<Rightarrow> Inl e
                | Inr b \<Rightarrow> Inr [Download (dt @ ''.pdf'') b]))"

definition handleGeneratePDF_resume :: "string \<Rightarrow> bytes fetched \<Rightarrow> action list" where
  "handleGeneratePDF_resume dt f =
     (case handleGeneratePDF_try dt f of
        Inl e \<Rightarrow> [SetError ''Error generating PDF.'']
      | Inr acts \<Rightarrow> acts)
     @ [SetLoading False]"

definition handleGeneratePDF :: "session \<Rightarrow> bytes fetched \<Rightarrow> action list" where
  "handleGeneratePDF s f = handleGeneratePDF_begin s @ handleGeneratePDF_resume (docType s) f"

section \<open>The input controls\<close>

text \<open>
  The textarea and the select call \<^verbatim>\<open>setPrompt\<close> and \<^verbatim>\<open>setDocType\<close>. The Parse button
  carries \<^verbatim>\<open>disabled={loading || !prompt}\<close>; a disabled button delivers no click, so
  \<^verbatim>\<open>handleParse\<close> does not run.
\<close>

definition onChange_prompt :: "string \<Rightarrow> action list" where
  "onChange_prompt v = [SetPrompt v]"

definition onChange_docType :: "string \<Rightarrow> action list" where
  "onChange_docType v = [SetDocType v]"

definition parse_disabled :: "session \<Rightarrow> bool" where
  "parse_disabled s = (loading s \<or> prompt s = '''')"

definition click_parse :: "session \<Rightarrow> jsval fetched \<Rightarrow> action list" where
  "click_parse s f = (if parse_disabled s then [] else handleParse s f)"

section \<open>Observations and sample data\<close>

text \<open>The files a run of a handler hands to the browser: suggested name and content.\<close>

fun download_of :: "action \<Rightarrow> (string \<times> bytes) option" where
  "download_of (Download name b) = Some (name, b)"
| "download_of (SetPrompt v) = None"
| "download_of (SetDocType v) = None"
| "download_of (SetItems v) = None"
| "download_of (SetLoading v) = None"
| "download_of (SetError v) = None"
| "download_of (Fetch url req) = None"

definition downloads :: "action list \<Rightarrow> (string \<times> bytes) list" where
  "downloads acts = List.map_filter download_of acts"

text \<open>
  A failed export: the request rejects, the status is outside 200 to 299, or reading the
  blob rejects.
\<close>

fun export_fails :: "bytes fetched \<Rightarrow> bool" where
  "export_fails (Inl e) = True"
| "export_fails (Inr res) = (\<not> ok res \<or> isl (body res))"

text \<open>A parsed body that carries an \<^verbatim>\<open>items\<close> key: an object with that property.\<close>

fun has_items_key :: "jsval \<Rightarrow> bool" where
  "has_items_key (JObj m) = (fmlookup m ''items'' \<noteq> None)"
| "has_items_key JUndefined = False"
| "has_items_key JNull = False"
| "has_items_key (JBool b) = False"
| "has_items_key (JNum n) = False"
| "has_items_key (JStr s) = False"
| "has_items_key (JArr xs) = False"

text \<open>The two line items and the prompt of the end-to-end scenarios.\<close>

definition widget_a :: jsval where
  "widget_a = JObj (fmap_of_list
     [(''reference'', JStr ''''), (''name'', JStr ''Widget A''),
      (''quantity'', JNum 2), (''unit_price'', JNum 10)])"

definition widget_b :: jsval where
  "widget_b = JObj (fmap_of_list
     [(''reference'', JStr ''''), (''name'', JStr ''Widget B''),
      (''quantity'', JNum 5), (''unit_price'', JNum 20)])"

definition typed_session :: session where
  "typed_session =
     \<lparr>prompt = ''2x Widget A at $10, 5x Widget B at $20 for Client X'',
      docType = ''Facture'', items = JArr [], loading = False, error = ''''\<rparr>"

definition table_session :: session where
  "table_session = typed_session\<lparr>items := JArr [widget_a, widget_b]\<rparr>"

definition pdf_bytes :: bytes where
  "pdf_bytes = [0x25, 0x50, 0x44, 0x46]"

definition quote_session :: session where
  "quote_session = table_session\<lparr>docType := ''Quote''\<rparr>"

section \<open>Unfolding the handlers\<close>

lemmas handler_defs =
  run_def handleParse_def handleParse_begin_def handleParse_resume_def handleParse_try_def
  handleGeneratePDF_def handleGeneratePDF_begin_def handleGeneratePDF_resume_def
  handleGeneratePDF_try_def

lemma handleItemChange_map_length:
  "length (handleItemChange_map idx field v xs) = length xs"
  by (simp add: handleItemChange_map_def)

lemma handleItemChange_map_nth:
  "j < length xs \<Longrightarrow>
   handleItemChange_map idx field v xs ! j =
     (if int j = idx then JObj (fmupd field v (own_props (xs ! j))) else xs ! j)"
  by (simp add: handleItemChange_map_def nth_enumerate_eq)

lemma handleItemChange_map_out_of_range:
  assumes "idx < 0 \<or> int (length xs) \<le> idx"
  shows "handleItemChange_map idx field v xs = xs"
proof (rule nth_equalityI)
  show "length (handleItemChange_map idx field v xs) = length xs"
    by (rule handleItemChange_map_length)
next
  fix j assume "j < length (handleItemChange_map idx field v xs)"
  then have j: "j < length xs" by (simp add: handleItemChange_map_length)
  with assms have "int j \<noteq> idx" by auto
  with j show "handleItemChange_map idx field v xs ! j = xs ! j"
    by (simp add: handleItemChange_map_nth)
qed

section \<open>The loading flag\<close>

text \<open>
  Claim C1. Whatever the service answers (a rejected request, a response of any status, a
  body that does or does not parse, with or without items), a parse and an export that
  complete end with \<open>loading = False\<close>. The second half of each handler clears the flag
  from any state it resumes in, so edits made while the request was in flight do not
  change that. A request that never settles never resumes the handler; the claim is
  about operations that complete.
\<close>

theorem loading_cleared:
  "loading (run (handleParse s f) s) = False
   \<and> loading (run (handleGeneratePDF s g) s) = False
   \<and> loading (run (handleParse_resume f) s') = False
   \<and> loading (run (handleGeneratePDF_resume dt g) s') = False"
  by (simp add: handler_defs split: sum.split)

theorem loading_cleared_witness:
  "loading (run (handleParse typed_session (Inl TypeError)) typed_session) = False
   \<and> loading (run (handleGeneratePDF table_session (Inr \<lparr>status = 500, body = Inr []\<rparr>))
        table_session) = False"
  using loading_cleared [where s = typed_session and f = "Inl TypeError"]
    loading_cleared [where s = table_session and g = "Inr \<lparr>status = 500, body = Inr []\<rparr>"]
  by simp

section \<open>Editing one cell\<close>

text \<open>
  Claim C2. When the stored items are an array and \<open>idx\<close> is a position in it,
  \<open>handleItemChange idx field v\<close> succeeds and changes nothing of the session but the
  items. The new array has the same length, and every position but \<open>idx\<close> holds the item
  it held before. The item at \<open>idx\<close> is an object whose property \<open>field\<close> is \<open>v\<close>. When
  the old item at \<open>idx\<close> is an object with the properties \<open>m0\<close>, the new item is that
  object with \<open>field\<close> set to \<open>v\<close>: every property other than \<open>field\<close> has the value it
  had in \<open>m0\<close>, and is absent if it was absent there. (For an old item that is not an
  object, the other properties are those the spread copies.) This holds for every field
  name, the four of the data model included.
\<close>

theorem handleItemChange_one_field:
  assumes "0 \<le> idx" and "idx < int (length xs)" and "items s = JArr xs"
  shows "\<exists>ys m. handleItemChange idx field v s = Inr (s\<lparr>items := JArr ys\<rparr>)
           \<and> length ys = length xs
           \<and> ys ! nat idx = JObj m
           \<and> fmlookup m field = Some v
           \<and> (\<forall>m0. xs ! nat idx = JObj m0 \<longrightarrow>
                 m = fmupd field v m0
                 \<and> (\<forall>k. k \<noteq> field \<longrightarrow> fmlookup m k = fmlookup m0 k))
           \<and> (\<forall>k. k \<noteq> field \<longrightarrow> fmlookup m k = fmlookup (own_props (xs ! nat idx)) k)
           \<and> (\<forall>j < length xs. j \<noteq> nat idx \<longrightarrow> ys ! j = xs ! j)"
proof -
  let ?ys = "handleItemChange_map idx field v xs"
  let ?m = "fmupd field v (own_props (xs ! nat idx))"
  from assms have pos: "nat idx < length xs" and same: "int (nat idx) = idx" by simp_all
  have "handleItemChange idx field v s = Inr (s\<lparr>items := JArr ?ys\<rparr>)"
    using assms(3) by (simp add: handleItemChange_def)
  moreover have "length ?ys = length xs" by (rule handleItemChange_map_length)
  moreover have "?ys ! nat idx = JObj ?m"
    using pos same by (simp add: handleItemChange_map_nth)
  moreover have "fmlookup ?m field = Some v" by simp
  moreover have "\<forall>m0. xs ! nat idx = JObj m0 \<longrightarrow>
                   ?m = fmupd field v m0
                   \<and> (\<forall>k. k \<noteq> field \<longrightarrow> fmlookup ?m k = fmlookup m0 k)"
  proof (intro allI impI)
    fix m0 assume old: "xs ! nat idx = JObj m0"
    then have "own_props (xs ! nat idx) = m0" by simp
    then show "?m = fmupd field v m0 \<and> (\<forall>k. k \<noteq> field \<longrightarrow> fmlookup ?m k = fmlookup m0 k)"
      by simp
  qed
  moreover have "\<forall>k. k \<noteq> field \<longrightarrow> fmlookup ?m k = fmlookup (own_props (xs ! nat idx)) k"
    by simp
  moreover have "\<forall>j < length xs. j \<noteq> nat idx \<longrightarrow> ?ys ! j = xs ! j"
  proof (intro allI impI)
    fix j assume "j < length xs" and "j \<noteq> nat idx"
    then have "int j \<noteq> idx" using same by auto
    with \<open>j < length xs\<close> show "?ys ! j = xs ! j" by (simp add: handleItemChange_map_nth)
  qed
  ultimately show ?thesis by blast
qed

text \<open>
  Editing the quantity of the second row of the two-row table: the first row is the
  same, and the second keeps its reference, its name and its unit price.
\<close>

theorem handleItemChange_one_field_witness:
  "(0::int) \<le> 1 \<and> (1::int) < int (length [widget_a, widget_b])
   \<and> items table_session = JArr [widget_a, widget_b]
   \<and> (\<exists>ys m. handleItemChange 1 ''quantity'' (JStr ''7'') table_session
                = Inr (table_session\<lparr>items := JArr ys\<rparr>)
           \<and> length ys = 2
           \<and> ys ! 0 = widget_a
           \<and> ys ! 1 = JObj m
           \<and> fmlookup m ''quantity'' = Some (JStr ''7'')
           \<and> fmlookup m ''reference'' = Some (JStr '''')
           \<and> fmlookup m ''name'' = Some (JStr ''Widget B'')
           \<and> fmlookup m ''unit_price'' = Some (JNum 20)
           \<and> fmlookup m ''colour'' = None)"
proof -
  let ?m0 = "fmap_of_list
     [(''reference'', JStr ''''), (''name'', JStr ''Widget B''),
      (''quantity'', JNum 5), (''unit_price'', JNum 20)]"
  have h1: "(0::int) \<le> 1" by simp
  have h2: "(1::int) < int (length [widget_a, widget_b])" by simp
  have h3: "items table_session = JArr [widget_a, widget_b]" by (simp add: table_session_def)
  have b: "[widget_a, widget_b] ! nat 1 = JObj ?m0" by (simp add: widget_b_def)
  have a: "(0::nat) < length [widget_a, widget_b]" and ne: "(0::nat) \<noteq> nat 1" by simp_all
  have "\<exists>ys m. handleItemChange 1 ''quantity'' (JStr ''7'') table_session
                = Inr (table_session\<lparr>items := JArr ys\<rparr>)
           \<and> length ys = 2
           \<and> ys ! 0 = widget_a
           \<and> ys ! 1 = JObj m
           \<and> fmlookup m ''quantity'' = Some (JStr ''7'')
           \<and> fmlookup m ''reference'' = Some (JStr '''')
           \<and> fmlookup m ''name'' = Some (JStr ''Widget B'')
           \<and> fmlookup m ''unit_price'' = Some (JNum 20)
           \<and> fmlookup m ''colour'' = None"
    using handleItemChange_one_field [OF h1 h2 h3, where field = "''quantity''" and v = "JStr ''7''"]
  proof (elim exE conjE)
    fix ys m
    assume res: "handleItemChange 1 ''quantity'' (JStr ''7'') table_session
                   = Inr (table_session\<lparr>items := JArr ys\<rparr>)"
      and len: "length ys = length [widget_a, widget_b]"
      and new: "ys ! nat 1 = JObj m"
      and upd: "fmlookup m ''quantity'' = Some (JStr ''7'')"
      and old: "\<forall>m0. [widget_a, widget_b] ! nat 1 = JObj m0 \<longrightarrow>
                  m = fmupd ''quantity'' (JStr ''7'') m0
                  \<and> (\<forall>k. k \<noteq> ''quantity'' \<longrightarrow> fmlookup m k = fmlookup m0 k)"
      and rest: "\<forall>j < length [widget_a, widget_b]. j \<noteq> nat 1 \<longrightarrow> ys ! j = [widget_a, widget_b] ! j"
    from old [THEN spec, THEN mp, OF b] have m: "m = fmupd ''quantity'' (JStr ''7'') ?m0"
      by (rule conjunct1)
    from rest [THEN spec, THEN mp, THEN mp, OF a ne] have "ys ! 0 = [widget_a, widget_b] ! 0" .
    then have first: "ys ! 0 = widget_a" by simp
    from new have second: "ys ! 1 = JObj m" by simp
    from len have two: "length ys = 2" by simp
    have r: "fmlookup m ''reference'' = Some (JStr '''')" by (simp add: m)
    have n: "fmlookup m ''name'' = Some (JStr ''Widget B'')" by (simp add: m)
    have p: "fmlookup m ''unit_price'' = Some (JNum 20)" by (simp add: m)
    have c: "fmlookup m ''colour'' = None" by (simp add: m)
    show ?thesis
      by (intro exI [of _ ys] exI [of _ m] conjI) (fact res two first second upd r n p c)+
  qed
  with h1 h2 h3 show ?thesis by (intro conjI)
qed

section \<open>What a parse makes of the response body\<close>

text \<open>
  Claim C3, as the code has it. A body that is an object whose \<^verbatim>\<open>items\<close> is the empty
  array ends the parse with an empty table, no error and \<open>loading = False\<close>: an empty
  array is truthy. A body that parses to a JSON value other than \<^verbatim>\<open>null\<close> and carries
  no \<^verbatim>\<open>items\<close> key ends it with the error \<^verbatim>\<open>No items found.\<close>, an empty table and
  \<open>loading = False\<close>. (\<open>JUndefined\<close> is excluded because it is not a JSON value.)
\<close>

theorem parse_items_key:
  "(body res = Inr (JObj m) \<and> fmlookup m ''items'' = Some (JArr []) \<longrightarrow>
      items (run (handleParse s (Inr res)) s) = JArr []
      \<and> error (run (handleParse s (Inr res)) s) = ''''
      \<and> loading (run (handleParse s (Inr res)) s) = False)
   \<and> (body res = Inr data \<and> data \<noteq> JNull \<and> data \<noteq> JUndefined \<and> \<not> has_items_key data \<longrightarrow>
      error (run (handleParse s (Inr res)) s) = ''No items found.''
      \<and> items (run (handleParse s (Inr res)) s) = JArr []
      \<and> loading (run (handleParse s (Inr res)) s) = False)"
proof (intro conjI impI)
  assume a: "body res = Inr data \<and> data \<noteq> JNull \<and> data \<noteq> JUndefined \<and> \<not> has_items_key data"
  then have g: "get_items data = Inr JUndefined"
    by (cases data) (auto split: option.splits)
  from a g show "error (run (handleParse s (Inr res)) s) = ''No items found.''"
    by (simp add: handler_defs)
  from a g show "items (run (handleParse s (Inr res)) s) = JArr []"
    by (simp add: handler_defs)
  from a g show "loading (run (handleParse s (Inr res)) s) = False"
    by (simp add: handler_defs)
qed (simp_all add: handler_defs)

theorem parse_items_key_witness:
  "fmlookup (fmupd ''items'' (JArr []) fmempty) ''items'' = Some (JArr [])
   \<and> items (run (handleParse typed_session
        (Inr \<lparr>status = 200, body = Inr (JObj (fmupd ''items'' (JArr []) fmempty))\<rparr>)) typed_session)
       = JArr []
   \<and> error (run (handleParse typed_session
        (Inr \<lparr>status = 200, body = Inr (JObj (fmupd ''items'' (JArr []) fmempty))\<rparr>)) typed_session)
       = ''''
   \<and> \<not> has_items_key (JObj fmempty)
   \<and> error (run (handleParse typed_session
        (Inr \<lparr>status = 200, body = Inr (JObj fmempty)\<rparr>)) typed_session)
       = ''No items found.''
   \<and> items (run (handleParse typed_session
        (Inr \<lparr>status = 200, body = Inr (JObj fmempty)\<rparr>)) typed_session)
       = JArr []"
  using parse_items_key [where s = typed_session
      and res = "\<lparr>status = 200, body = Inr (JObj (fmupd ''items'' (JArr []) fmempty))\<rparr>"
      and m = "fmupd ''items'' (JArr []) fmempty"]
    parse_items_key [where s = typed_session
      and res = "\<lparr>status = 200, body = Inr (JObj fmempty)\<rparr>" and data = "JObj fmempty"]
  by simp

text \<open>
  The claim as written covers every body that parses as JSON and has no \<^verbatim>\<open>items\<close> key.
  The body \<^verbatim>\<open>null\<close> is one: reading \<^verbatim>\<open>data.items\<close> throws, the \<^verbatim>\<open>catch\<close> runs, and the
  message is the generic one.
\<close>

theorem parse_null_body_counterexample:
  "\<not> has_items_key JNull
   \<and> error (run (handleParse typed_session (Inr \<lparr>status = 200, body = Inr JNull\<rparr>)) typed_session)
       = ''Error parsing prompt.''
   \<and> error (run (handleParse typed_session (Inr \<lparr>status = 200, body = Inr JNull\<rparr>)) typed_session)
       \<noteq> ''No items found.''"
  by (simp add: handler_defs typed_session_def)

section \<open>A failed export\<close>

text \<open>
  Claim C4. When the export fails (the request rejects, the status is outside 200 to 299,
  or reading the blob rejects) the session ends with the error \<^verbatim>\<open>Error generating PDF.\<close>,
  \<open>loading = False\<close>, the items it had when the export was triggered, and no file
  delivered.
\<close>

theorem export_failure_keeps_items:
  assumes "export_fails f"
  shows "error (run (handleGeneratePDF s f) s) = ''Error generating PDF.''
         \<and> loading (run (handleGeneratePDF s f) s) = False
         \<and> items (run (handleGeneratePDF s f) s) = items s
         \<and> downloads (handleGeneratePDF s f) = []"
proof (cases f)
  case (Inl e)
  then show ?thesis by (simp add: handler_defs downloads_def)
next
  case (Inr res)
  with assms have "\<not> ok res \<or> isl (body res)" by simp
  then show ?thesis
  proof
    assume "\<not> ok res"
    with Inr show ?thesis by (simp add: handler_defs downloads_def)
  next
    assume "isl (body res)"
    then obtain e where "body res = Inl e" by (cases "body res") simp_all
    with Inr show ?thesis by (simp add: handler_defs downloads_def)
  qed
qed

theorem export_failure_keeps_items_witness:
  "export_fails (Inr \<lparr>status = 500, body = Inr []\<rparr>)
   \<and> error (run (handleGeneratePDF table_session (Inr \<lparr>status = 500, body = Inr []\<rparr>))
        table_session) = ''Error generating PDF.''
   \<and> loading (run (handleGeneratePDF table_session (Inr \<lparr>status = 500, body = Inr []\<rparr>))
        table_session) = False
   \<and> items (run (handleGeneratePDF table_session (Inr \<lparr>status = 500, body = Inr []\<rparr>))
        table_session) = JArr [widget_a, widget_b]
   \<and> downloads (handleGeneratePDF table_session (Inr \<lparr>status = 500, body = Inr []\<rparr>)) = []"
proof -
  have h: "export_fails (Inr \<lparr>status = 500, body = Inr []\<rparr>)" by (simp add: ok_def)
  have i: "items table_session = JArr [widget_a, widget_b]" by (simp add: table_session_def)
  from export_failure_keeps_items [OF h, of table_session] h i show ?thesis by simp
qed

section \<open>The start of a parse\<close>

text \<open>
  Claim C5. In every run of \<^verbatim>\<open>handleParse\<close> the actions before the request are
  \<^verbatim>\<open>setLoading(true)\<close>, \<^verbatim>\<open>setError('')\<close>, \<^verbatim>\<open>setItems([])\<close>; the request to the parsing
  service comes fourth. At that point \<open>loading\<close> is set, the error is empty and the items
  are the empty array. The final state of a parse does not depend on the items the
  session held before, whatever the service answers.
\<close>

theorem parse_begins_by_clearing:
  "takeWhile (\<lambda>a. \<not> is_fetch a) (handleParse s f)
     = [SetLoading True, SetError '''', SetItems (JArr [])]
   \<and> handleParse s f ! 3 = Fetch parse_url (JObj (fmupd ''prompt'' (JStr (prompt s)) fmempty))
   \<and> loading (run (takeWhile (\<lambda>a. \<not> is_fetch a) (handleParse s f)) s) = True
   \<and> error (run (takeWhile (\<lambda>a. \<not> is_fetch a) (handleParse s f)) s) = ''''
   \<and> items (run (takeWhile (\<lambda>a. \<not> is_fetch a) (handleParse s f)) s) = JArr []
   \<and> run (handleParse (s\<lparr>items := old\<rparr>) f) (s\<lparr>items := old\<rparr>) = run (handleParse s f) s"
  by (simp add: handler_defs split: sum.split)

theorem parse_begins_by_clearing_witness:
  "items (run (takeWhile (\<lambda>a. \<not> is_fetch a)
        (handleParse (typed_session\<lparr>items := JArr [widget_a, widget_b]\<rparr>) (Inl TypeError)))
      (typed_session\<lparr>items := JArr [widget_a, widget_b]\<rparr>)) = JArr []
   \<and> run (handleParse (typed_session\<lparr>items := JArr [widget_a, widget_b]\<rparr>) (Inl TypeError))
         (typed_session\<lparr>items := JArr [widget_a, widget_b]\<rparr>)
       = run (handleParse typed_session (Inl TypeError)) typed_session"
  using parse_begins_by_clearing [where s = "typed_session\<lparr>items := JArr [widget_a, widget_b]\<rparr>"
      and f = "Inl TypeError" and old = "JArr []"]
    parse_begins_by_clearing [where s = typed_session and f = "Inl TypeError"
      and old = "JArr [widget_a, widget_b]"]
  by blast

section \<open>A parse answered with an error status\<close>

text \<open>
  Claim C6 asks that a response with a non-success status end the parse with the error
  \<^verbatim>\<open>Error parsing prompt.\<close> and an empty table. \<^verbatim>\<open>handleParse\<close> never reads
  \<^verbatim>\<open>res.ok\<close> (\<^verbatim>\<open>handleGeneratePDF\<close> does), so a status 500 whose body is a JSON object
  is handled like a status 200: without \<^verbatim>\<open>items\<close> the message is \<^verbatim>\<open>No items found.\<close>,
  and with \<^verbatim>\<open>items\<close> the table is filled and no error is shown.
\<close>

theorem parse_ignores_http_status:
  "\<not> ok \<lparr>status = 500, body = Inr (JObj (fmap_of_list [(''error'', JStr ''Internal Server Error'')]))\<rparr>
   \<and> error (run (handleParse typed_session
       (Inr \<lparr>status = 500, body = Inr (JObj (fmap_of_list [(''error'', JStr ''Internal Server Error'')]))\<rparr>))
     typed_session) = ''No items found.''
   \<and> error (run (handleParse typed_session
       (Inr \<lparr>status = 500, body = Inr (JObj (fmap_of_list [(''items'', JArr [widget_a])]))\<rparr>))
     typed_session) = ''''
   \<and> items (run (handleParse typed_session
       (Inr \<lparr>status = 500, body = Inr (JObj (fmap_of_list [(''items'', JArr [widget_a])]))\<rparr>))
     typed_session) = JArr [widget_a]"
  by (simp add: handler_defs typed_session_def ok_def)

section \<open>The Parse button with an empty prompt\<close>

text \<open>
  Claim C7. With an empty prompt the Parse button is disabled, so a click on it runs
  nothing: no setter is called, no request is sent, and the session is the same
  afterwards. (The guard is the button's \<^verbatim>\<open>disabled\<close> attribute; \<^verbatim>\<open>handleParse\<close> itself
  does not look at the prompt.)
\<close>

theorem empty_prompt_parse_noop:
  assumes "prompt s = ''''"
  shows "click_parse s f = []
         \<and> filter is_fetch (click_parse s f) = []
         \<and> run (click_parse s f) s = s"
  using assms by (simp add: click_parse_def parse_disabled_def run_def)

theorem empty_prompt_parse_noop_witness:
  "prompt initial_session = ''''
   \<and> click_parse initial_session (Inr \<lparr>status = 200, body = Inr (JObj fmempty)\<rparr>) = []
   \<and> filter is_fetch (click_parse initial_session (Inr \<lparr>status = 200, body = Inr (JObj fmempty)\<rparr>)) = []
   \<and> run (click_parse initial_session (Inr \<lparr>status = 200, body = Inr (JObj fmempty)\<rparr>))
        initial_session = initial_session"
proof -
  have h: "prompt initial_session = ''''" by (simp add: initial_session_def)
  from empty_prompt_parse_noop [OF h] h show ?thesis by blast
qed

section \<open>Edits outside the table and unknown field names\<close>

text \<open>
  Claim C8, as the code has it. \<^verbatim>\<open>handleItemChange\<close> checks neither the index nor the
  field name and reports no error for them. With an index that is no position of the
  array it returns normally and the session is unchanged. With a position of the array
  it stores the value under the given name, whatever the name is, on the item at that
  position.
\<close>

theorem handleItemChange_unchecked:
  assumes "items s = JArr xs"
  shows "(idx < 0 \<or> int (length xs) \<le> idx \<longrightarrow> handleItemChange idx field v s = Inr s)
         \<and> (0 \<le> idx \<and> idx < int (length xs) \<longrightarrow>
              (\<exists>ys. handleItemChange idx field v s = Inr (s\<lparr>items := JArr ys\<rparr>)
                 \<and> ys ! nat idx = JObj (fmupd field v (own_props (xs ! nat idx)))))"
proof (intro conjI impI)
  assume "idx < 0 \<or> int (length xs) \<le> idx"
  then have "handleItemChange_map idx field v xs = xs"
    by (rule handleItemChange_map_out_of_range)
  with assms show "handleItemChange idx field v s = Inr s"
    by (simp add: handleItemChange_def)
next
  assume "0 \<le> idx \<and> idx < int (length xs)"
  then have "nat idx < length xs" and "int (nat idx) = idx" by auto
  then have "handleItemChange_map idx field v xs ! nat idx
               = JObj (fmupd field v (own_props (xs ! nat idx)))"
    by (simp add: handleItemChange_map_nth)
  with assms show "\<exists>ys. handleItemChange idx field v s = Inr (s\<lparr>items := JArr ys\<rparr>)
                 \<and> ys ! nat idx = JObj (fmupd field v (own_props (xs ! nat idx)))"
    by (intro exI [of _ "handleItemChange_map idx field v xs"]) (simp add: handleItemChange_def)
qed

theorem handleItemChange_unchecked_witness:
  "items table_session = JArr [widget_a, widget_b]
   \<and> int (length [widget_a, widget_b]) \<le> 2
   \<and> handleItemChange 2 ''name'' (JStr ''Widget C'') table_session = Inr table_session
   \<and> (0::int) \<le> 0 \<and> (0::int) < int (length [widget_a, widget_b])
   \<and> (\<exists>ys. handleItemChange 0 ''colour'' (JStr ''red'') table_session
              = Inr (table_session\<lparr>items := JArr ys\<rparr>)
         \<and> ys ! nat 0 = JObj (fmupd ''colour'' (JStr ''red'') (own_props ([widget_a, widget_b] ! nat 0))))"
proof -
  have h: "items table_session = JArr [widget_a, widget_b]" by (simp add: table_session_def)
  have far: "int (length [widget_a, widget_b]) \<le> 2" by simp
  have near: "(0::int) \<le> 0 \<and> (0::int) < int (length [widget_a, widget_b])" by simp
  from handleItemChange_unchecked [OF h, where idx = 2 and field = "''name''" and v = "JStr ''Widget C''"]
    handleItemChange_unchecked [OF h, where idx = 0 and field = "''colour''" and v = "JStr ''red''"]
    h far near
  show ?thesis by blast
qed

text \<open>
  The claim as written has both calls fail. An edit at position 2 of a table of two
  items returns normally, and so does an edit of a field named \<^verbatim>\<open>colour\<close>, which adds
  that property to the item.
\<close>

theorem handleItemChange_counterexample:
  "handleItemChange 2 ''name'' (JStr ''Widget C'') table_session = Inr table_session
   \<and> \<not> isl (handleItemChange 2 ''name'' (JStr ''Widget C'') table_session)
   \<and> handleItemChange 0 ''colour'' (JStr ''red'') (typed_session\<lparr>items := JArr [JObj fmempty]\<rparr>)
       = Inr (typed_session\<lparr>items := JArr [JObj (fmupd ''colour'' (JStr ''red'') fmempty)]\<rparr>)
   \<and> \<not> isl (handleItemChange 0 ''colour'' (JStr ''red'') (typed_session\<lparr>items := JArr [JObj fmempty]\<rparr>))"
  by (simp add: handleItemChange_def handleItemChange_map_def table_session_def
      enumerate_eq_zip upt_rec)

section \<open>A successful export\<close>

text \<open>
  Claim C9. When the rendering service answers with a success status and the blob is
  read, exactly one file is delivered: its suggested name is the \<open>docType\<close> of the
  session followed by \<^verbatim>\<open>.pdf\<close>, its content the blob. The items and the \<open>docType\<close> of
  the session are unchanged. \<open>docType\<close> is a string here, so the statement covers
  \<^verbatim>\<open>Quote\<close> as it covers the labels of \<open>DOC_TYPES\<close>, the only values the select offers.
\<close>

theorem export_file_name:
  assumes "ok res" and "body res = Inr b"
  shows "downloads (handleGeneratePDF s (Inr res)) = [(docType s @ ''.pdf'', b)]
         \<and> items (run (handleGeneratePDF s (Inr res)) s) = items s
         \<and> docType (run (handleGeneratePDF s (Inr res)) s) = docType s"
  using assms by (simp add: handler_defs downloads_def)

theorem export_file_name_witness:
  "ok \<lparr>status = 200, body = Inr pdf_bytes\<rparr>
   \<and> downloads (handleGeneratePDF quote_session (Inr \<lparr>status = 200, body = Inr pdf_bytes\<rparr>))
       = [(''Quote.pdf'', pdf_bytes)]
   \<and> items (run (handleGeneratePDF quote_session (Inr \<lparr>status = 200, body = Inr pdf_bytes\<rparr>))
        quote_session) = JArr [widget_a, widget_b]
   \<and> docType (run (handleGeneratePDF quote_session (Inr \<lparr>status = 200, body = Inr pdf_bytes\<rparr>))
        quote_session) = ''Quote''"
proof -
  have h1: "ok \<lparr>status = 200, body = Inr pdf_bytes\<rparr>" by (simp add: ok_def)
  have h2: "body \<lparr>status = 200, body = Inr pdf_bytes\<rparr> = Inr pdf_bytes" by simp
  have d: "docType quote_session = ''Quote''" by (simp add: quote_session_def)
  have i: "items quote_session = JArr [widget_a, widget_b]"
    by (simp add: quote_session_def table_session_def)
  from export_file_name [OF h1 h2, of quote_session] h1 d i show ?thesis by simp
qed

section \<open>What the handlers leave alone\<close>

text \<open>
  Claim C10. A parse and an export, whatever the service answers and whatever state they
  run in, leave \<open>prompt\<close> and \<open>docType\<close> as they were. The textarea and the select are
  what sets them.
\<close>

theorem handlers_keep_prompt_and_docType:
  "prompt (run (handleParse s f) s') = prompt s'
   \<and> docType (run (handleParse s f) s') = docType s'
   \<and> prompt (run (handleGeneratePDF s g) s') = prompt s'
   \<and> docType (run (handleGeneratePDF s g) s') = docType s'
   \<and> prompt (run (onChange_prompt v) s') = v
   \<and> docType (run (onChange_docType v) s') = v"
  by (simp add: handler_defs onChange_prompt_def onChange_docType_def split: sum.split)

theorem handlers_keep_prompt_and_docType_witness:
  "prompt (run (handleParse typed_session (Inr \<lparr>status = 200, body = Inr (JObj fmempty)\<rparr>))
      typed_session) = prompt typed_session
   \<and> docType (run (handleGeneratePDF table_session (Inr \<lparr>status = 500, body = Inr []\<rparr>))
        table_session) = docType table_session"
  using handlers_keep_prompt_and_docType [where s = typed_session and s' = typed_session
      and f = "Inr \<lparr>status = 200, body = Inr (JObj fmempty)\<rparr>"]
    handlers_keep_prompt_and_docType [where s = table_session and s' = table_session
      and g = "Inr \<lparr>status = 500, body = Inr []\<rparr>"]
  by blast

end
